theory Spec2Isabelle
  imports Main "HOL-Library.Sublist"
begin

section \<open>Python values used by the scraper\<close>

text \<open>
  The scraper (\<^verbatim>\<open>Google_Search.py\<close>) drives a browser; every awaited browser call may
  raise. A raised exception is a value: \<open>Inl e\<close> is \<^verbatim>\<open>raise e\<close>, \<open>Inr v\<close> is a normal return
  of \<open>v\<close>. Only exceptions below \<^verbatim>\<open>Exception\<close> are modelled (the ones the source's
  \<^verbatim>\<open>except Exception\<close> clauses catch); task cancellation is outside the model, and so are
  logging and the debug captures (\<^verbatim>\<open>self.debug = False\<close>, the default).

  Strings are \<open>string\<close>; a character stands for a code point below 256. A value of Python
  type \<^verbatim>\<open>Optional[str]\<close> is a \<open>string option\<close>, \<open>None\<close> being Python's \<^verbatim>\<open>None\<close>.
\<close>

datatype exn = Exception string

fun str_exn :: "exn \<Rightarrow> string" where
  "str_exn (Exception m) = m"

text \<open>Truth value of an \<^verbatim>\<open>Optional[str]\<close>: \<^verbatim>\<open>None\<close> and the empty string are false.\<close>

definition truthy :: "string option \<Rightarrow> bool" where
  "truthy v = (case v of None \<Rightarrow> False | Some s \<Rightarrow> s \<noteq> [])"

text \<open>
  \<^verbatim>\<open>str.isspace\<close> on the code points below 256: 9 to 13, 28 to 32, 133 and 160.
\<close>

definition is_space :: "char \<Rightarrow> bool" where
  "is_space c =
     (let n = (of_char c :: nat)
      in (9 \<le> n \<and> n \<le> 13) \<or> (28 \<le> n \<and> n \<le> 32) \<or> n = 133 \<or> n = 160)"

definition strip :: "string \<Rightarrow> string" where
  "strip s = rev (dropWhile is_space (rev (dropWhile is_space s)))"

text \<open>\<^verbatim>\<open>s.startswith(p)\<close> is \<open>prefix p s\<close>; \<^verbatim>\<open>p in s\<close> on strings is \<open>sublist p s\<close>.\<close>

section \<open>The rendered search page\<close>

text \<open>
  A locator is what \<^verbatim>\<open>result.locator(sel)\<close> answers to the three calls the source makes on
  it: \<^verbatim>\<open>count()\<close>, \<^verbatim>\<open>first.text_content()\<close> and \<^verbatim>\<open>first.get_attribute('href')\<close>. A result
  node maps each selector to its locator. Every selector is queried at most once per
  node, so a function of the selector covers pages that change between calls as well.
\<close>

record locator =
  count :: "exn + nat"
  first_text_content :: "exn + string option"
  first_get_attribute_href :: "exn + string option"

type_synonym node = "string \<Rightarrow> locator"

section \<open>The selector cascade (lines 230-257)\<close>

text \<open>
  The source runs the same loop three times, for the title, the link and the snippet:
  \<^verbatim>\<open>
    v = ""
    for sel in selectors:
        element = result.locator(sel)
        if await element.count() > 0:
            v = await fetch(element.first)
            if accept(v):
                break
  \<close>
  \<open>cascade fetch accept result selectors v\<close> is that loop from the current value \<open>v\<close> of
  the variable; it returns the variable's value after the loop, or the exception a query
  raised.
\<close>

fun cascade ::
  "(locator \<Rightarrow> exn + string option) \<Rightarrow> (string option \<Rightarrow> bool) \<Rightarrow> node \<Rightarrow>
     string list \<Rightarrow> string option \<Rightarrow> exn + string option" where
  "cascade fetch accept result [] v = Inr v"
| "cascade fetch accept result (sel # sels) v =
     (case count (result sel) of
        Inl e \<Rightarrow> Inl e
      | Inr n \<Rightarrow>
          if n > 0 then
            (case fetch (result sel) of
               Inl e \<Rightarrow> Inl e
             | Inr v' \<Rightarrow> if accept v' then Inr v' else cascade fetch accept result sels v')
          else cascade fetch accept result sels v)"

text \<open>\<^verbatim>\<open>if title and title.strip()\<close>, also used for the snippet.\<close>

definition accept_text :: "string option \<Rightarrow> bool" where
  "accept_text v = (truthy v \<and> truthy (map_option strip v))"

text \<open>\<^verbatim>\<open>if url and url.startswith('http')\<close>.\<close>

definition accept_link :: "string option \<Rightarrow> bool" where
  "accept_link v = (truthy v \<and> (case v of None \<Rightarrow> False | Some u \<Rightarrow> prefix ''http'' u))"

definition title_selectors :: "string list" where
  "title_selectors = [''h3'', ''h2'', ''.LC20lb'', ''.DKV0Md'']"

definition link_selectors :: "string list" where
  "link_selectors = [''a[href]'', ''[href]'']"

definition snippet_selectors :: "string list" where
  "snippet_selectors =
     [''.VwiC3b'', ''.s3v9rd'', ''.st'', ''[data-sncf='' @ [CHR 0x22] @ ''1'' @ [CHR 0x22] @ '']'',
      ''.IsZvec'', ''.aCOpRe'']"

section \<open>\<^verbatim>\<open>urlparse(url).netloc\<close>\<close>

text \<open>
  The domain of a result is \<^verbatim>\<open>urlparse(url).netloc\<close> of the standard library
  (\<^verbatim>\<open>urllib/parse.py\<close>, \<^verbatim>\<open>urlsplit\<close>). The part that yields the netloc:
  \<^verbatim>\<open>
    url = url.lstrip(_WHATWG_C0_CONTROL_OR_SPACE)
    for b in ['\t', '\r', '\n']: url = url.replace(b, "")
    i = url.find(':')
    if i > 0 and url[0].isascii() and url[0].isalpha():
        for c in url[:i]:
            if c not in scheme_chars: break
        else: scheme, url = url[:i].lower(), url[i+1:]
    if url[:2] == '//':
        netloc, url = _splitnetloc(url, 2)
        if (('[' in netloc and ']' not in netloc) or (']' in netloc and '[' not in netloc)):
            raise ValueError("Invalid IPv6 URL")
        if '[' in netloc and ']' in netloc:
            ...   # validation of the bracketed host
    ...
    _checknetloc(netloc)
  \<close>
  \<^verbatim>\<open>_checknetloc\<close> raises only when NFKC normalisation of the netloc introduces one of
  \<^verbatim>\<open>/?#@:\<close>, which no code point below 256 does, so it returns normally on every string of
  this model. The validation of a netloc that has both brackets differs between
  interpreters (\<^verbatim>\<open>_check_bracketed_host\<close> on the text between the first brackets in
  CPython 3.11, \<^verbatim>\<open>_check_bracketed_netloc\<close> on the whole netloc in later ones) and ends in
  the \<^verbatim>\<open>ipaddress\<close> module. It is the parameter \<open>bracket_check\<close>, from the netloc to \<open>None\<close>
  (the netloc passes) or \<open>Some e\<close> (\<^verbatim>\<open>ValueError\<close> \<open>e\<close> is raised); everything proved below
  holds for every such validation.
\<close>

definition c0_control_or_space :: "char \<Rightarrow> bool" where
  "c0_control_or_space c = ((of_char c :: nat) \<le> 32)"

definition unsafe_url_byte :: "char \<Rightarrow> bool" where
  "unsafe_url_byte c = (c = CHR 0x09 \<or> c = CHR 0x0D \<or> c = CHR 0x0A)"

definition is_ascii_alpha :: "char \<Rightarrow> bool" where
  "is_ascii_alpha c =
     (let n = (of_char c :: nat) in (65 \<le> n \<and> n \<le> 90) \<or> (97 \<le> n \<and> n \<le> 122))"

definition is_digit :: "char \<Rightarrow> bool" where
  "is_digit c = (let n = (of_char c :: nat) in 48 \<le> n \<and> n \<le> 57)"

definition scheme_char :: "char \<Rightarrow> bool" where
  "scheme_char c = (is_ascii_alpha c \<or> is_digit c \<or> c = CHR ''+'' \<or> c = CHR ''-'' \<or> c = CHR ''.'')"

text \<open>The url with its scheme (and the colon) removed, when it has one.\<close>

definition drop_scheme :: "string \<Rightarrow> string" where
  "drop_scheme url =
     (let pre = takeWhile (\<lambda>c. c \<noteq> CHR '':'') url
      in if CHR '':'' \<in> set url \<and> pre \<noteq> [] \<and> is_ascii_alpha (hd pre) \<and> list_all scheme_char pre
         then drop (length pre + 1) url
         else url)"

text \<open>\<^verbatim>\<open>_splitnetloc(url, 2)[0]\<close>: from index 2 to the first of \<^verbatim>\<open>/?#\<close>.\<close>

definition splitnetloc :: "string \<Rightarrow> string" where
  "splitnetloc url =
     takeWhile (\<lambda>c. c \<noteq> CHR ''/'' \<and> c \<noteq> CHR ''?'' \<and> c \<noteq> CHR ''#'') (drop 2 url)"

definition urlparse_netloc :: "(string \<Rightarrow> exn option) \<Rightarrow> string \<Rightarrow> exn + string" where
  "urlparse_netloc bracket_check url0 =
     (let url = drop_scheme (filter (\<lambda>c. \<not> unsafe_url_byte c) (dropWhile c0_control_or_space url0))
      in if take 2 url = ''//'' then
           (let netloc = splitnetloc url;
                lb = (CHR ''['' \<in> set netloc);
                rb = (CHR '']'' \<in> set netloc)
            in if lb \<noteq> rb then Inl (Exception ''Invalid IPv6 URL'')
               else if lb \<and> rb then
                 (case bracket_check netloc of
                    Some e \<Rightarrow> Inl e
                  | None \<Rightarrow> Inr netloc)
               else Inr netloc)
         else Inr [])"

section \<open>The search-result extractor: \<^verbatim>\<open>search_google\<close>\<close>

record search_result =
  position :: int
  title :: string
  url :: string
  snippet :: string
  domain :: string
  search_query :: string

text \<open>The list of line 265.\<close>

definition excluded_patterns :: "string list" where
  "excluded_patterns = [''google.com'', ''youtube.com/results'', ''googleadservices'']"

text \<open>
  The body of the \<^verbatim>\<open>try\<close> of one iteration (lines 229-277), from the accumulated
  \<open>results\<close>: the three cascades, the validation (\<^verbatim>\<open>continue\<close> keeps \<open>results\<close>), the
  exclusion test on the url, and the append.
\<close>

definition result_body ::
  "(string \<Rightarrow> exn option) \<Rightarrow> string \<Rightarrow> search_result list \<Rightarrow> node \<Rightarrow> exn + search_result list" where
  "result_body bracket_check query results result =
     (case cascade first_text_content accept_text result title_selectors (Some []) of
        Inl e \<Rightarrow> Inl e
      | Inr title_v \<Rightarrow>
     (case cascade first_get_attribute_href accept_link result link_selectors (Some []) of
        Inl e \<Rightarrow> Inl e
      | Inr url_v \<Rightarrow>
     (case cascade first_text_content accept_text result snippet_selectors (Some []) of
        Inl e \<Rightarrow> Inl e
      | Inr snippet_v \<Rightarrow>
     (case (title_v, url_v) of
        (Some t, Some u) \<Rightarrow>
          if t = [] \<or> u = [] \<or> \<not> prefix ''http'' u then Inr results
          else if list_ex (\<lambda>d. sublist d u) excluded_patterns then Inr results
          else
            (case urlparse_netloc bracket_check u of
               Inl e \<Rightarrow> Inl e
             | Inr netloc \<Rightarrow>
                 Inr (results @
                   [\<lparr>position = int (length results) + 1,
                     title = strip t,
                     url = u,
                     snippet = (case snippet_v of
                                  None \<Rightarrow> ''No description available''
                                | Some s \<Rightarrow> if s = [] then ''No description available'' else strip s),
                     domain = netloc,
                     search_query = query\<rparr>]))
      | _ \<Rightarrow> Inr results))))"

text \<open>One iteration: \<^verbatim>\<open>except Exception: continue\<close> keeps \<open>results\<close> as they were.\<close>

definition process_result ::
  "(string \<Rightarrow> exn option) \<Rightarrow> string \<Rightarrow> search_result list \<Rightarrow> node \<Rightarrow> search_result list" where
  "process_result bracket_check query results result =
     (case result_body bracket_check query results result of
        Inl e \<Rightarrow> results
      | Inr results' \<Rightarrow> results')"

text \<open>
  \<^verbatim>\<open>xs[:m]\<close> for a Python \<^verbatim>\<open>int\<close> \<open>m\<close>: a negative \<open>m\<close> counts from the end.
\<close>

definition slice_to :: "'a list \<Rightarrow> int \<Rightarrow> 'a list" where
  "slice_to xs m = (if 0 \<le> m then take (nat m) xs else take (nat (int (length xs) + m)) xs)"

text \<open>The loop of line 227 over \<^verbatim>\<open>search_results[:max_results]\<close>, from \<^verbatim>\<open>results = []\<close>.\<close>

definition extract_results ::
  "(string \<Rightarrow> exn option) \<Rightarrow> string \<Rightarrow> int \<Rightarrow> node list \<Rightarrow> search_result list" where
  "extract_results bracket_check query max_results search_results =
     foldl (process_result bracket_check query) [] (slice_to search_results max_results)"

text \<open>
  The search page, as the calls of \<^verbatim>\<open>search_google\<close> see it: \<open>goto\<close> is \<open>Some e\<close> when the
  navigation raises; \<open>wait_for_selector sel\<close> is false when the wait raises (a bare
  \<^verbatim>\<open>except\<close> moves on to the next selector); \<open>locator_all sel\<close> is
  \<^verbatim>\<open>page.locator(sel).all()\<close>; \<open>close\<close> is \<open>Some e\<close> when \<^verbatim>\<open>page.close()\<close> raises. The
  consent dialogue (lines 152-171) sits in its own \<^verbatim>\<open>try/except Exception\<close> and touches
  no variable read later; it is left out, and so is \<^verbatim>\<open>human_like_delay\<close>, which does not
  raise on a delay range of two numbers.
\<close>

record page =
  goto :: "exn option"
  wait_for_selector :: "string \<Rightarrow> bool"
  locator_all :: "string \<Rightarrow> exn + node list"
  close :: "exn option"

definition result_selectors :: "string list" where
  "result_selectors = [''#search'', ''#rso'', ''.g'', ''[data-header-feature]'', ''.MjjYud'', ''.hlcw0c'']"

definition search_result_selectors :: "string list" where
  "search_result_selectors =
     [''.g'', ''.MjjYud'', ''[data-sokoban-container] .g'', ''.hlcw0c'', ''[jscontroller] .g'']"

text \<open>Lines 213-218: the first selector with at least one node; \<open>[]\<close> when none has.\<close>

fun locate_results :: "page \<Rightarrow> string list \<Rightarrow> exn + node list" where
  "locate_results pg [] = Inr []"
| "locate_results pg (sel # sels) =
     (case locator_all pg sel of
        Inl e \<Rightarrow> Inl e
      | Inr ns \<Rightarrow> if ns \<noteq> [] then Inr ns else locate_results pg sels)"

text \<open>
  \<^verbatim>\<open>search_google\<close>: \<open>new_page\<close> is the outcome of \<^verbatim>\<open>self.context.new_page()\<close>, before
  the \<^verbatim>\<open>try\<close>. Inside the \<^verbatim>\<open>try\<close> every exception ends the search with the results so
  far, which are still empty before the loop; \<^verbatim>\<open>page.close()\<close> runs in \<^verbatim>\<open>finally\<close>.
\<close>

definition search_google ::
  "(string \<Rightarrow> exn option) \<Rightarrow> exn + page \<Rightarrow> string \<Rightarrow> int \<Rightarrow> exn + search_result list" where
  "search_google bracket_check new_page query max_results =
     (case new_page of
        Inl e \<Rightarrow> Inl e
      | Inr pg \<Rightarrow>
          (let results =
             (case goto pg of
                Some e \<Rightarrow> []
              | None \<Rightarrow>
                  (case find (wait_for_selector pg) result_selectors of
                     None \<Rightarrow> []
                   | Some search_container \<Rightarrow>
                       (case locate_results pg search_result_selectors of
                          Inl e \<Rightarrow> []
                        | Inr search_results \<Rightarrow>
                            if search_results = [] then []
                            else extract_results bracket_check query max_results search_results)))
           in case close pg of Some e \<Rightarrow> Inl e | None \<Rightarrow> Inr results))"

section \<open>The content extractor: \<^verbatim>\<open>extract_page_content\<close>\<close>

text \<open>Decimal rendering of an integer, for \<^verbatim>\<open>f"HTTP {response.status}"\<close>.\<close>

fun str_nat :: "nat \<Rightarrow> string" where
  "str_nat n =
     (if n < 10 then [char_of (48 + n)] else str_nat (n div 10) @ [char_of (48 + n mod 10)])"

declare str_nat.simps [simp del]

definition str_int :: "int \<Rightarrow> string" where
  "str_int i = (if i < 0 then CHR ''-'' # str_nat (nat (- i)) else str_nat (nat i))"

text \<open>
  \<^verbatim>\<open>s.split()\<close>: the maximal runs of characters that are not whitespace; \<open>cur\<close> is the
  run being read, reversed.
\<close>

fun split_ws :: "string \<Rightarrow> string \<Rightarrow> string list" where
  "split_ws [] cur = (if cur = [] then [] else [rev cur])"
| "split_ws (c # cs) cur =
     (if is_space c then (if cur = [] then split_ws cs [] else rev cur # split_ws cs [])
      else split_ws cs (c # cur))"

definition split :: "string \<Rightarrow> string list" where
  "split s = split_ws s []"

record heading =
  level :: string
  text_h :: string

text \<open>
  A heading element answers \<^verbatim>\<open>evaluate('el => el.tagName.toLowerCase()')\<close> and
  \<^verbatim>\<open>text_content()\<close>. The content page answers the calls of \<^verbatim>\<open>extract_page_content\<close>:
  \<open>goto_c\<close> is the navigation (\<open>Inr None\<close>: no response object, \<open>Inr (Some st)\<close>: a
  response of status \<open>st\<close>), \<open>wait_for_load_state\<close> the settle wait, \<open>evaluate\<close> the
  text-extraction script (it returns a string), \<open>meta_get_attribute_content\<close> the meta
  description, \<open>headings_all\<close> the heading elements, \<open>close_c\<close> \<^verbatim>\<open>page.close()\<close>.
  \<^verbatim>\<open>human_like_delay\<close> does not raise on a delay range of two numbers and is left out.
\<close>

record heading_node =
  tag_name :: "exn + string"
  text_content_h :: "exn + string option"

record content_page =
  goto_c :: "exn + int option"
  wait_for_load_state :: "exn option"
  evaluate :: "exn + string"
  meta_get_attribute_content :: "exn + string option"
  headings_all :: "exn + heading_node list"
  close_c :: "exn option"

record content_data =
  url_c :: string
  title_c :: string
  content :: string
  text_content :: string
  meta_description :: string
  headings :: "heading list"
  links :: "string list"
  images :: "string list"
  status_code :: "int option"
  error :: "string option"
  scraped_at :: string
  word_count :: int
  reading_time :: int

text \<open>The dict of lines 298-312; \<open>now\<close> is \<^verbatim>\<open>datetime.now().isoformat()\<close>.\<close>

definition initial_content_data :: "string \<Rightarrow> string \<Rightarrow> string \<Rightarrow> content_data" where
  "initial_content_data now url_a title_a =
     \<lparr>url_c = url_a, title_c = title_a, content = [], text_content = [], meta_description = [],
      headings = [], links = [], images = [], status_code = None, error = None,
      scraped_at = now, word_count = 0, reading_time = 0\<rparr>"

text \<open>Lines 378-387: one heading; any exception skips it.\<close>

definition heading_entry :: "heading_node \<Rightarrow> heading option" where
  "heading_entry h =
     (case tag_name h of
        Inl e \<Rightarrow> None
      | Inr tg \<Rightarrow>
          (case text_content_h h of
             Inl e \<Rightarrow> None
           | Inr None \<Rightarrow> None
           | Inr (Some t) \<Rightarrow>
               if t \<noteq> [] \<and> strip t \<noteq> [] then Some \<lparr>level = tg, text_h = take 200 (strip t)\<rparr>
               else None))"

text \<open>Lines 359-365: the trimmed text and the two metrics.\<close>

definition set_text :: "string \<Rightarrow> content_data \<Rightarrow> content_data" where
  "set_text txt cd =
     (let cd1 = cd\<lparr>text_content := (if txt \<noteq> [] then strip txt else [])\<rparr>
      in if text_content cd1 \<noteq> []
         then (let words = int (length (split (text_content cd1)))
               in cd1\<lparr>word_count := words, reading_time := max 1 (words div 200)\<rparr>)
         else cd1)"

text \<open>Lines 368-372: an exception leaves the field as it is.\<close>

definition set_meta :: "exn + string option \<Rightarrow> content_data \<Rightarrow> content_data" where
  "set_meta m cd =
     (case m of
        Inl e \<Rightarrow> cd
      | Inr None \<Rightarrow> cd\<lparr>meta_description := []\<rparr>
      | Inr (Some d) \<Rightarrow> cd\<lparr>meta_description := d\<rparr>)"

text \<open>Lines 375-389: at most the first 20 heading elements.\<close>

definition set_headings :: "exn + heading_node list \<Rightarrow> content_data \<Rightarrow> content_data" where
  "set_headings hs cd =
     (case hs of
        Inl e \<Rightarrow> cd
      | Inr hl \<Rightarrow> cd\<lparr>headings := headings cd @ List.map_filter heading_entry (take 20 hl)\<rparr>)"

text \<open>
  Lines 338-391, the text extraction and what follows it. An exception of the
  text-extraction script reaches the outer \<^verbatim>\<open>except Exception\<close>, which records it in
  \<open>error\<close>.
\<close>

definition extract_content :: "content_page \<Rightarrow> string \<Rightarrow> content_data \<Rightarrow> content_data" where
  "extract_content pg url_a cd =
     (case evaluate pg of
        Inl e \<Rightarrow>
          cd\<lparr>error := Some (''Error extracting content from '' @ url_a @ '': '' @ str_exn e)\<rparr>
      | Inr txt \<Rightarrow>
          set_headings (headings_all pg) (set_meta (meta_get_attribute_content pg) (set_text txt cd)))"

text \<open>
  Lines 330-396, after a navigation that did not return early: the settle wait, whose
  exception is dropped (\<^verbatim>\<open>except: pass\<close>), then the extraction.
\<close>

definition extract_body :: "content_page \<Rightarrow> string \<Rightarrow> content_data \<Rightarrow> content_data" where
  "extract_body pg url_a cd =
     (case wait_for_load_state pg of
        None \<Rightarrow> extract_content pg url_a cd
      | Some timeout \<Rightarrow> extract_content pg url_a cd)"

text \<open>
  \<^verbatim>\<open>extract_page_content\<close>, inside the semaphore: \<open>new_page\<close> is the outcome of
  \<^verbatim>\<open>self.context.new_page()\<close> (line 297, before the \<^verbatim>\<open>try\<close>); \<^verbatim>\<open>page.close()\<close> runs in
  \<^verbatim>\<open>finally\<close> on every path, and an exception there leaves the function.
\<close>

definition extract_page_content ::
  "exn + content_page \<Rightarrow> string \<Rightarrow> string \<Rightarrow> string \<Rightarrow> exn + content_data" where
  "extract_page_content new_page now url_a title_a =
     (case new_page of
        Inl e \<Rightarrow> Inl e
      | Inr pg \<Rightarrow>
          (let content_data0 = initial_content_data now url_a title_a;
               content_data1 =
                 (case goto_c pg of
                    Inl nav_error \<Rightarrow>
                      content_data0\<lparr>error := Some (''Navigation failed: '' @ str_exn nav_error)\<rparr>
                  | Inr response \<Rightarrow>
                      (let cd = content_data0\<lparr>status_code := response\<rparr>
                       in case response of
                            None \<Rightarrow> extract_body pg url_a cd
                          | Some st \<Rightarrow>
                              if st \<ge> 400 then cd\<lparr>error := Some (''HTTP '' @ str_int st)\<rparr>
                              else extract_body pg url_a cd))
           in case close_c pg of Some e \<Rightarrow> Inl e | None \<Rightarrow> Inr content_data1))"

section \<open>The fan-out and the merge: \<^verbatim>\<open>scrape_search_results\<close>\<close>

text \<open>
  \<^verbatim>\<open>scrape_search_results\<close> works on dicts (\<^verbatim>\<open>Dict[str, Any]\<close>): a dict is a map from keys
  to values, \<^verbatim>\<open>{**a, **b}\<close> is \<open>a ++ b\<close> (the entries of \<open>b\<close> win), and \<^verbatim>\<open>d[k]\<close> raises
  \<^verbatim>\<open>KeyError\<close> on a missing key.
\<close>

datatype pyval =
  VNone
| VInt int
| VStr string
| VList "pyval list"
| VDict "(string \<times> pyval) list"

type_synonym pydict = "string \<rightharpoonup> pyval"


text \<open>The dict appended at lines 268-275.\<close>

definition dict_of_search_result :: "search_result \<Rightarrow> pydict" where
  "dict_of_search_result r =
     [''position'' \<mapsto> VInt (position r), ''title'' \<mapsto> VStr (title r), ''url'' \<mapsto> VStr (url r),
      ''snippet'' \<mapsto> VStr (snippet r), ''domain'' \<mapsto> VStr (domain r),
      ''search_query'' \<mapsto> VStr (search_query r)]"






section \<open>Notions used in the statements\<close>


text \<open>
  What one candidate selector contributes to a cascade. \<open>fetched\<close> is the value read from
  the first match of a candidate (\<open>None\<close> when it has no match or a query raises). A
  candidate is passed over when the loop moves on from it: it has no match, or the value
  of its first match is rejected by the test; no query on it raises.
\<close>

definition fetched ::
  "(locator \<Rightarrow> exn + string option) \<Rightarrow> node \<Rightarrow> string \<Rightarrow> string option option" where
  "fetched fetch result sel =
     (case count (result sel) of
        Inl e \<Rightarrow> None
      | Inr n \<Rightarrow>
          if n > 0 then (case fetch (result sel) of Inl e \<Rightarrow> None | Inr v \<Rightarrow> Some v) else None)"

definition passed_over ::
  "(locator \<Rightarrow> exn + string option) \<Rightarrow> (string option \<Rightarrow> bool) \<Rightarrow> node \<Rightarrow> string \<Rightarrow> bool" where
  "passed_over fetch accept result sel =
     (case count (result sel) of
        Inl e \<Rightarrow> False
      | Inr n \<Rightarrow>
          if n > 0 then (case fetch (result sel) of Inl e \<Rightarrow> False | Inr v \<Rightarrow> \<not> accept v)
          else True)"


text \<open>
  The value of a string of decimal digits. Together with "every character is a digit"
  and "the first digit is not 0" it fixes the decimal rendering of a positive integer.
\<close>

definition decimal_value :: "string \<Rightarrow> nat" where
  "decimal_value s = foldl (\<lambda>a c. 10 * a + (of_char c - 48)) 0 s"

text \<open>
  A static page, to say what a selector matches beyond its first match: the locator of a
  selector that matches the elements \<open>ms\<close>, in document order. \<^verbatim>\<open>count()\<close> is their number
  and \<^verbatim>\<open>first\<close> is the first of them (with no match, the calls on \<^verbatim>\<open>first\<close> wait and
  time out).
\<close>

record element =
  text_content_e :: "exn + string option"
  get_attribute_href_e :: "exn + string option"

definition locator_of :: "element list \<Rightarrow> locator" where
  "locator_of ms =
     \<lparr>count = Inr (length ms),
      first_text_content =
        (case ms of [] \<Rightarrow> Inl (Exception ''Timeout 30000ms exceeded'') | m # _ \<Rightarrow> text_content_e m),
      first_get_attribute_href =
        (case ms of [] \<Rightarrow> Inl (Exception ''Timeout 30000ms exceeded'')
         | m # _ \<Rightarrow> get_attribute_href_e m)\<rparr>"

definition heading_element :: "string \<Rightarrow> element" where
  "heading_element t = \<lparr>text_content_e = Inr (Some t), get_attribute_href_e = Inr None\<rparr>"

section \<open>Concrete pages\<close>

text \<open>
  Inputs on which the functions above are evaluated. None of their urls has a bracket,
  so the validation of bracketed hosts is never asked for; \<open>no_ip_address\<close> rejects every
  netloc it is given.
\<close>

definition no_ip_address :: "string \<Rightarrow> exn option" where
  "no_ip_address h = Some (Exception ''not an IPv4 or IPv6 address'')"

definition no_match :: locator where
  "no_match = \<lparr>count = Inr 0, first_text_content = Inr None, first_get_attribute_href = Inr None\<rparr>"

text \<open>
  A result node whose \<^verbatim>\<open>h3\<close> has the text \<open>t\<close> and whose first \<^verbatim>\<open>a[href]\<close> has the href
  \<open>u\<close>; no other selector matches in it.
\<close>

definition result_node :: "string \<Rightarrow> string \<Rightarrow> node" where
  "result_node t u sel =
     (if sel = ''h3'' then no_match\<lparr>count := Inr 1, first_text_content := Inr (Some t)\<rparr>
      else if sel = ''a[href]'' then no_match\<lparr>count := Inr 1, first_get_attribute_href := Inr (Some u)\<rparr>
      else no_match)"

text \<open>
  A search page that loads, shows \<^verbatim>\<open>#search\<close>, holds the nodes \<open>ns\<close> under \<^verbatim>\<open>.g\<close> and
  closes.
\<close>

definition search_page :: "node list \<Rightarrow> page" where
  "search_page ns =
     \<lparr>goto = None,
      wait_for_selector = (\<lambda>sel. sel = ''#search''),
      locator_all = (\<lambda>sel. if sel = ''.g'' then Inr ns else Inr []),
      close = None\<rparr>"

text \<open>
  Four result nodes; the second one links to a page of the search engine itself.
\<close>

definition four_nodes :: "node list" where
  "four_nodes =
     [result_node ''Alpha'' ''https://alpha.example/a'',
      result_node ''Maps'' ''https://www.google.com/maps'',
      result_node ''Beta'' ''http://beta.example/'',
      result_node ''Gamma'' ''http://gamma.example/g'']"

text \<open>
  A node whose link, once tab, carriage return and line feed are removed, points to the
  search engine; a node whose link names the search engine in its query string only; a
  node whose \<^verbatim>\<open>h3\<close> holds two blanks; a node whose \<^verbatim>\<open>h3\<close> holds two blanks, whose \<^verbatim>\<open>h2\<close>
  holds a title, and whose other selectors cannot be queried.
\<close>

definition tab_node :: node where
  "tab_node = result_node ''Search'' (''http://goo'' @ [CHR 0x09] @ ''gle.com/'')"

definition referrer_node :: node where
  "referrer_node = result_node ''Guide'' ''https://example.com/out?ref=google.com''"

definition blank_title_node :: node where
  "blank_title_node = result_node ''  '' ''http://example.com/''"

definition fallback_node :: node where
  "fallback_node sel =
     (if sel = ''h3'' then no_match\<lparr>count := Inr 1, first_text_content := Inr (Some ''  '')\<rparr>
      else if sel = ''h2'' then no_match\<lparr>count := Inr 2, first_text_content := Inr (Some ''Second'')\<rparr>
      else no_match\<lparr>count := Inl (Exception ''Element is not attached to the DOM'')\<rparr>)"



text \<open>
  Content pages: one answered with status 404; one whose settle wait, meta description
  and headings all raise; one whose text-extraction script raises.
\<close>

definition not_found_page :: content_page where
  "not_found_page =
     \<lparr>goto_c = Inr (Some 404),
      wait_for_load_state = None,
      evaluate = Inr ''Not Found'',
      meta_get_attribute_content = Inr (Some ''missing''),
      headings_all = Inr [\<lparr>tag_name = Inr ''h1'', text_content_h = Inr (Some ''Not Found'')\<rparr>],
      close_c = None\<rparr>"

definition flaky_page :: content_page where
  "flaky_page =
     \<lparr>goto_c = Inr (Some 200),
      wait_for_load_state = Some (Exception ''Timeout 15000ms exceeded''),
      evaluate = Inr ''  Hello brave new world  '',
      meta_get_attribute_content = Inl (Exception ''Timeout 30000ms exceeded''),
      headings_all = Inl (Exception ''Execution context was destroyed''),
      close_c = None\<rparr>"

definition broken_script_page :: content_page where
  "broken_script_page =
     \<lparr>goto_c = Inr (Some 200),
      wait_for_load_state = None,
      evaluate = Inl (Exception ''document.body is null''),
      meta_get_attribute_content = Inr None,
      headings_all = Inr [],
      close_c = None\<rparr>"




text \<open>
  A node whose \<^verbatim>\<open>h3\<close> matches two elements, the first holding two blanks and the second a
  title, and whose \<^verbatim>\<open>h2\<close> matches one element.
\<close>

definition two_titles_node :: node where
  "two_titles_node sel =
     (if sel = ''h3'' then locator_of [heading_element ''  '', heading_element ''Real title'']
      else if sel = ''h2'' then locator_of [heading_element ''Other'']
      else locator_of [])"

text \<open>
  A node whose link has an upper-case host, and a node whose link is the relative
  reference \<^verbatim>\<open>httpd-manual.html\<close>.
\<close>

definition upper_case_node :: node where
  "upper_case_node = result_node ''Maps'' ''https://WWW.GOOGLE.COM/maps''"

definition relative_link_node :: node where
  "relative_link_node = result_node ''Manual'' ''httpd-manual.html''"

text \<open>
  The page answered with status 404 whose tab cannot be closed, and a page answered
  with status 503.
\<close>

definition not_found_page_close_fails :: content_page where
  "not_found_page_close_fails = not_found_page\<lparr>close_c := Some (Exception ''Target closed'')\<rparr>"

definition unavailable_page :: content_page where
  "unavailable_page = not_found_page\<lparr>goto_c := Inr (Some 503)\<rparr>"

section \<open>Properties of the search-result extractor\<close>

subsection \<open>One iteration either keeps the results or appends one record\<close>

lemma result_body_cases:
  "(\<exists>e. result_body ip q rs n = Inl e) \<or> result_body ip q rs n = Inr rs \<or>
   (\<exists>t u s d.
      cascade first_text_content accept_text n title_selectors (Some []) = Inr (Some t) \<and>
      cascade first_get_attribute_href accept_link n link_selectors (Some []) = Inr (Some u) \<and>
      t \<noteq> [] \<and> prefix ''http'' u \<and> \<not> list_ex (\<lambda>d. sublist d u) excluded_patterns \<and>
      urlparse_netloc ip u = Inr d \<and>
      result_body ip q rs n =
        Inr (rs @ [\<lparr>position = int (length rs) + 1, title = strip t, url = u, snippet = s,
                    domain = d, search_query = q\<rparr>]))"
  unfolding result_body_def
  by (auto split: sum.splits option.splits prod.splits)

lemma process_result_cases:
  "process_result ip q rs n = rs \<or>
   (\<exists>t u s d.
      cascade first_text_content accept_text n title_selectors (Some []) = Inr (Some t) \<and>
      cascade first_get_attribute_href accept_link n link_selectors (Some []) = Inr (Some u) \<and>
      t \<noteq> [] \<and> prefix ''http'' u \<and> \<not> list_ex (\<lambda>d. sublist d u) excluded_patterns \<and>
      urlparse_netloc ip u = Inr d \<and>
      process_result ip q rs n =
        rs @ [\<lparr>position = int (length rs) + 1, title = strip t, url = u, snippet = s,
               domain = d, search_query = q\<rparr>])"
  using result_body_cases [of ip q rs n] unfolding process_result_def
  by (auto split: sum.splits)

subsection \<open>Invariants of the loop\<close>

lemma foldl_process_result_invariant:
  assumes "P rs" and "\<And>rs n. P rs \<Longrightarrow> P (process_result ip q rs n)"
  shows "P (foldl (process_result ip q) rs ns)"
  using assms(1)
proof (induction ns arbitrary: rs)
  case Nil
  then show ?case by simp
next
  case (Cons n ns)
  then show ?case using assms(2) by simp
qed

lemma extract_results_invariant:
  assumes "P []" and "\<And>rs n. P rs \<Longrightarrow> P (process_result ip q rs n)"
  shows "P (extract_results ip q m ns)"
  unfolding extract_results_def using assms by (rule foldl_process_result_invariant)

lemma length_process_result_le: "length (process_result ip q rs n) \<le> Suc (length rs)"
  using process_result_cases [of ip q rs n] by auto

lemma length_foldl_process_result_le:
  "length (foldl (process_result ip q) rs ns) \<le> length rs + length ns"
proof (induction ns arbitrary: rs)
  case Nil
  then show ?case by simp
next
  case (Cons n ns)
  have "length (foldl (process_result ip q) (process_result ip q rs n) ns)
          \<le> length (process_result ip q rs n) + length ns"
    by (rule Cons.IH)
  also have "\<dots> \<le> Suc (length rs) + length ns"
    using length_process_result_le [of ip q rs n] by simp
  finally show ?case by simp
qed

lemma length_slice_to_le: "0 \<le> m \<Longrightarrow> int (length (slice_to xs m)) \<le> m"
  by (simp add: slice_to_def)

lemma length_extract_results_le:
  assumes "0 \<le> m"
  shows "int (length (extract_results ip q m ns)) \<le> m"
proof -
  have "length (extract_results ip q m ns) \<le> length (slice_to ns m)"
    unfolding extract_results_def
    using length_foldl_process_result_le [of ip q "[]" "slice_to ns m"] by simp
  then show ?thesis using length_slice_to_le [OF assms, of ns] by linarith
qed

lemma positions_process_result:
  assumes "map position rs = [1..int (length rs)]"
  shows "map position (process_result ip q rs n) = [1..int (length (process_result ip q rs n))]"
proof -
  have up: "[1..1 + int (length rs)] = [1..int (length rs)] @ [int (length rs) + 1]"
    using upto_rec2 [of 1 "1 + int (length rs)"] by (simp add: add.commute)
  show ?thesis
    using process_result_cases [of ip q rs n] assms up by auto
qed

lemma positions_extract_results:
  "map position (extract_results ip q m ns) = [1..int (length (extract_results ip q m ns))]"
  by (rule extract_results_invariant) (simp_all add: positions_process_result)

subsection \<open>What \<open>search_google\<close> returns\<close>

lemma search_google_output:
  assumes "search_google ip np q m = Inr out"
  shows "out = [] \<or> (\<exists>ns. ns \<noteq> [] \<and> out = extract_results ip q m ns)"
  using assms unfolding search_google_def
  by (auto simp: Let_def split: sum.splits option.splits if_splits)

lemma search_google_extracts:
  assumes "goto pg = None" and "find (wait_for_selector pg) result_selectors = Some c"
    and "locate_results pg search_result_selectors = Inr ns" and "close pg = None"
  shows "search_google ip (Inr pg) q m = Inr (extract_results ip q m ns)"
  using assms unfolding search_google_def
  by (auto simp: Let_def extract_results_def slice_to_def)

lemma search_page_extracts:
  "search_google ip (Inr (search_page ns)) q m = Inr (extract_results ip q m ns)"
proof (rule search_google_extracts)
  show "locate_results (search_page ns) search_result_selectors = Inr ns"
    by (simp add: search_page_def search_result_selectors_def)
qed (simp_all add: search_page_def result_selectors_def)

subsection \<open>Length and positions\<close>

text \<open>
  C4, as the code has it. Whenever \<open>search_google\<close> returns, the positions of its records
  are exactly 1, 2, ..., the length of the output, whatever was skipped; and the output
  has at most \<open>max_results\<close> records when \<open>max_results\<close> is not negative. For a negative
  \<open>max_results\<close> the slice \<^verbatim>\<open>search_results[:max_results]\<close> drops nodes from the end, and
  the bound does not hold.
\<close>

theorem search_google_positions_and_length:
  assumes "search_google ip new_page query max_results = Inr out"
  shows "map position out = [1..int (length out)] \<and>
         (0 \<le> max_results \<longrightarrow> int (length out) \<le> max_results)"
  using search_google_output [OF assms] positions_extract_results length_extract_results_le
  by auto

theorem search_google_positions_and_length_witness:
  "search_google no_ip_address (Inr (search_page four_nodes)) ''q'' 3 =
     Inr [\<lparr>position = 1, title = ''Alpha'', url = ''https://alpha.example/a'',
            snippet = ''No description available'', domain = ''alpha.example'',
            search_query = ''q''\<rparr>,
          \<lparr>position = 2, title = ''Beta'', url = ''http://beta.example/'',
            snippet = ''No description available'', domain = ''beta.example'',
            search_query = ''q''\<rparr>] \<and>
   map position
     [\<lparr>position = 1, title = ''Alpha'', url = ''https://alpha.example/a'',
        snippet = ''No description available'', domain = ''alpha.example'',
        search_query = ''q''\<rparr>,
      \<lparr>position = 2, title = ''Beta'', url = ''http://beta.example/'',
        snippet = ''No description available'', domain = ''beta.example'',
        search_query = ''q''\<rparr>] = [1..2] \<and>
   (0::int) \<le> 3 \<and> (2::int) \<le> 3"
proof -
  have run: "search_google no_ip_address (Inr (search_page four_nodes)) ''q'' 3 =
     Inr [\<lparr>position = 1, title = ''Alpha'', url = ''https://alpha.example/a'',
            snippet = ''No description available'', domain = ''alpha.example'',
            search_query = ''q''\<rparr>,
          \<lparr>position = 2, title = ''Beta'', url = ''http://beta.example/'',
            snippet = ''No description available'', domain = ''beta.example'',
            search_query = ''q''\<rparr>]"
    by code_simp
  from search_google_positions_and_length [OF run] run show ?thesis by simp
qed

text \<open>
  With \<open>max_results = -1\<close> the slice keeps the first three of the four nodes; two of them
  are accepted, and 2 is not at most -1.
\<close>

theorem search_google_negative_max_results:
  "search_google no_ip_address (Inr (search_page four_nodes)) ''q'' (- 1) =
     Inr [\<lparr>position = 1, title = ''Alpha'', url = ''https://alpha.example/a'',
            snippet = ''No description available'', domain = ''alpha.example'',
            search_query = ''q''\<rparr>,
          \<lparr>position = 2, title = ''Beta'', url = ''http://beta.example/'',
            snippet = ''No description available'', domain = ''beta.example'',
            search_query = ''q''\<rparr>] \<and>
   \<not> int (length
     [\<lparr>position = 1, title = ''Alpha'', url = ''https://alpha.example/a'',
        snippet = ''No description available'', domain = ''alpha.example'',
        search_query = ''q''\<rparr>,
      \<lparr>position = 2, title = ''Beta'', url = ''http://beta.example/'',
        snippet = ''No description available'', domain = ''beta.example'',
        search_query = ''q''\<rparr>]) \<le> - 1"
proof -
  have run: "search_google no_ip_address (Inr (search_page four_nodes)) ''q'' (- 1) =
     Inr [\<lparr>position = 1, title = ''Alpha'', url = ''https://alpha.example/a'',
            snippet = ''No description available'', domain = ''alpha.example'',
            search_query = ''q''\<rparr>,
          \<lparr>position = 2, title = ''Beta'', url = ''http://beta.example/'',
            snippet = ''No description available'', domain = ''beta.example'',
            search_query = ''q''\<rparr>]"
    by code_simp
  then show ?thesis by simp
qed

subsection \<open>Urls and domains of the records\<close>

lemma extract_results_records:
  assumes "r \<in> set (extract_results ip q m ns)"
  shows "prefix ''http'' (url r) \<and> \<not> list_ex (\<lambda>p. sublist p (url r)) excluded_patterns \<and>
         urlparse_netloc ip (url r) = Inr (domain r)"
proof -
  let ?G = "\<lambda>r::search_result. prefix ''http'' (url r) \<and>
         \<not> list_ex (\<lambda>p. sublist p (url r)) excluded_patterns \<and>
         urlparse_netloc ip (url r) = Inr (domain r)"
  have "\<forall>r \<in> set (extract_results ip q m ns). ?G r"
  proof (rule extract_results_invariant)
    show "\<forall>r \<in> set []. ?G r" by simp
  next
    fix rs n
    assume "\<forall>r \<in> set rs. ?G r"
    then show "\<forall>r \<in> set (process_result ip q rs n). ?G r"
      using process_result_cases [of ip q rs n] by auto
  qed
  then show ?thesis using assms by blast
qed

lemma search_google_records:
  assumes "search_google ip np q m = Inr out" and "r \<in> set out"
  shows "prefix ''http'' (url r) \<and> \<not> list_ex (\<lambda>p. sublist p (url r)) excluded_patterns \<and>
         urlparse_netloc ip (url r) = Inr (domain r)"
  using search_google_output [OF assms(1)] assms(2) extract_results_records by auto

text \<open>
  Without tab, carriage return and line feed in the url, the netloc is a contiguous part
  of it.
\<close>

lemma sublist_urlparse_netloc:
  assumes "urlparse_netloc ip u = Inr d" and "\<not> list_ex unsafe_url_byte u"
  shows "sublist d u"
proof -
  define u1 where "u1 = dropWhile c0_control_or_space u"
  have f: "filter (\<lambda>c. \<not> unsafe_url_byte c) u1 = u1"
    using assms(2) unfolding u1_def
    by (auto simp: list_ex_iff filter_id_conv dest: set_dropWhileD)
  have s1: "suffix u1 u" unfolding u1_def by (rule suffix_dropWhile)
  have s2: "suffix (drop_scheme u1) u1"
    unfolding drop_scheme_def Let_def by (simp add: suffix_drop)
  have "prefix (splitnetloc (drop_scheme u1)) (drop 2 (drop_scheme u1))"
    unfolding splitnetloc_def by (rule takeWhile_is_prefix)
  then have "sublist (splitnetloc (drop_scheme u1)) (drop 2 (drop_scheme u1))"
    by (rule prefix_imp_sublist)
  also have "sublist (drop 2 (drop_scheme u1)) (drop_scheme u1)"
    by (rule suffix_imp_sublist) (rule suffix_drop)
  finally have s3: "sublist (splitnetloc (drop_scheme u1)) (drop_scheme u1)" .
  have "d = [] \<or> d = splitnetloc (drop_scheme u1)"
    using assms(1) unfolding urlparse_netloc_def Let_def u1_def [symmetric] f
    by (auto split: if_splits option.splits)
  then show ?thesis
  proof
    assume "d = []"
    then show ?thesis by simp
  next
    assume "d = splitnetloc (drop_scheme u1)"
    with s3 have "sublist d (drop_scheme u1)" by simp
    also have "sublist (drop_scheme u1) u1" using s2 by (rule suffix_imp_sublist)
    also have "sublist u1 u" using s1 by (rule suffix_imp_sublist)
    finally show ?thesis .
  qed
qed

lemma sublist_excluded_trans:
  assumes "\<not> list_ex (\<lambda>p. sublist p u) excluded_patterns" and "sublist d u"
  shows "\<not> list_ex (\<lambda>p. sublist p d) excluded_patterns"
  using assms by (auto simp: list_ex_iff intro: sublist_order.order_trans)

text \<open>
  What the loop does establish for every record: the url starts with \<^verbatim>\<open>http\<close> and contains
  none of the three excluded strings, and the domain is the netloc of that url.
\<close>

lemma search_google_record_urls:
  assumes "search_google ip new_page query max_results = Inr out" and "r \<in> set out"
  shows "prefix ''http'' (url r) \<and>
         \<not> list_ex (\<lambda>p. sublist p (url r)) excluded_patterns \<and>
         urlparse_netloc ip (url r) = Inr (domain r) \<and>
         (\<not> list_ex unsafe_url_byte (url r) \<longrightarrow>
            sublist (domain r) (url r) \<and>
            \<not> list_ex (\<lambda>p. sublist p (domain r)) excluded_patterns)"
proof -
  note g = search_google_records [OF assms]
  have "sublist (domain r) (url r)" if "\<not> list_ex unsafe_url_byte (url r)"
    using sublist_urlparse_netloc [of ip "url r" "domain r"] g that by simp
  then show ?thesis using g sublist_excluded_trans by blast
qed

text \<open>
  C5 at three links that the loop accepts. A link written with a tab inside the host
  name does not contain \<^verbatim>\<open>google.com\<close>; \<^verbatim>\<open>urlparse\<close> removes the tab, and the record's
  domain is \<^verbatim>\<open>google.com\<close>, one of the excluded strings. A link to the search engine with
  an upper-case host passes the case-sensitive test and gets the search engine's domain.
  The relative reference \<^verbatim>\<open>httpd-manual.html\<close> starts with \<^verbatim>\<open>http\<close>, is not an absolute
  http or https url, and gets the empty domain.
\<close>

theorem search_google_domain_excluded:
  "search_google no_ip_address (Inr (search_page [tab_node])) ''q'' 10 =
     Inr [\<lparr>position = 1, title = ''Search'', url = ''http://goo'' @ [CHR 0x09] @ ''gle.com/'',
            snippet = ''No description available'', domain = ''google.com'',
            search_query = ''q''\<rparr>] \<and>
   ''google.com'' \<in> set excluded_patterns \<and>
   search_google no_ip_address (Inr (search_page [upper_case_node])) ''q'' 10 =
     Inr [\<lparr>position = 1, title = ''Maps'', url = ''https://WWW.GOOGLE.COM/maps'',
            snippet = ''No description available'', domain = ''WWW.GOOGLE.COM'',
            search_query = ''q''\<rparr>] \<and>
   search_google no_ip_address (Inr (search_page [relative_link_node])) ''q'' 10 =
     Inr [\<lparr>position = 1, title = ''Manual'', url = ''httpd-manual.html'',
            snippet = ''No description available'', domain = [],
            search_query = ''q''\<rparr>]"
proof -
  have 1: "search_google no_ip_address (Inr (search_page [tab_node])) ''q'' 10 =
     Inr [\<lparr>position = 1, title = ''Search'', url = ''http://goo'' @ [CHR 0x09] @ ''gle.com/'',
            snippet = ''No description available'', domain = ''google.com'',
            search_query = ''q''\<rparr>]"
    by code_simp
  have 2: "search_google no_ip_address (Inr (search_page [upper_case_node])) ''q'' 10 =
     Inr [\<lparr>position = 1, title = ''Maps'', url = ''https://WWW.GOOGLE.COM/maps'',
            snippet = ''No description available'', domain = ''WWW.GOOGLE.COM'',
            search_query = ''q''\<rparr>]"
    by code_simp
  have 3: "search_google no_ip_address (Inr (search_page [relative_link_node])) ''q'' 10 =
     Inr [\<lparr>position = 1, title = ''Manual'', url = ''httpd-manual.html'',
            snippet = ''No description available'', domain = [],
            search_query = ''q''\<rparr>]"
    by code_simp
  from 1 2 3 show ?thesis by (simp add: excluded_patterns_def)
qed

subsection \<open>The exclusion test reads the whole url\<close>

text \<open>
  C10. When the link cascade of a node ends with a url that contains one of
  \<^verbatim>\<open>google.com\<close>, \<^verbatim>\<open>youtube.com/results\<close>, \<^verbatim>\<open>googleadservices\<close> anywhere, the iteration for
  that node leaves the results as they were; and no record that \<open>search_google\<close> returns
  has a url containing one of them. The test is on the url, not on its netloc.
\<close>

theorem excluded_url_is_omitted:
  "(cascade first_get_attribute_href accept_link result link_selectors (Some []) = Inr (Some u) \<and>
    p \<in> set excluded_patterns \<and> sublist p u
      \<longrightarrow> process_result ip query results result = results) \<and>
   (search_google ip new_page query max_results = Inr out \<and> r \<in> set out \<and>
    p \<in> set excluded_patterns
      \<longrightarrow> \<not> sublist p (url r))"
proof (intro conjI impI)
  assume a: "cascade first_get_attribute_href accept_link result link_selectors (Some []) =
      Inr (Some u) \<and> p \<in> set excluded_patterns \<and> sublist p u"
  then have "list_ex (\<lambda>d. sublist d u) excluded_patterns" by (auto simp: list_ex_iff)
  with a show "process_result ip query results result = results"
    unfolding process_result_def result_body_def
    by (auto split: sum.splits option.splits)
next
  assume a: "search_google ip new_page query max_results = Inr out \<and> r \<in> set out \<and>
    p \<in> set excluded_patterns"
  then show "\<not> sublist p (url r)"
    using search_google_records [of ip new_page query max_results out r]
    by (auto simp: list_ex_iff)
qed

text \<open>
  The url \<^verbatim>\<open>https://example.com/out?ref=google.com\<close> has the netloc \<^verbatim>\<open>example.com\<close> and
  names \<^verbatim>\<open>google.com\<close> in its query string only; its node is omitted.
\<close>

theorem excluded_url_is_omitted_witness:
  "cascade first_get_attribute_href accept_link referrer_node link_selectors (Some []) =
     Inr (Some ''https://example.com/out?ref=google.com'') \<and>
   ''google.com'' \<in> set excluded_patterns \<and>
   sublist ''google.com'' ''https://example.com/out?ref=google.com'' \<and>
   urlparse_netloc no_ip_address ''https://example.com/out?ref=google.com'' = Inr ''example.com'' \<and>
   process_result no_ip_address ''q'' [] referrer_node = [] \<and>
   search_google no_ip_address (Inr (search_page [referrer_node, result_node ''Beta'' ''http://beta.example/''])) ''q'' 10 =
     Inr [\<lparr>position = 1, title = ''Beta'', url = ''http://beta.example/'',
            snippet = ''No description available'', domain = ''beta.example'',
            search_query = ''q''\<rparr>] \<and>
   \<not> sublist ''google.com'' ''http://beta.example/''"
proof -
  let ?r = "\<lparr>position = 1, title = ''Beta'', url = ''http://beta.example/'',
            snippet = ''No description available'', domain = ''beta.example'',
            search_query = ''q''\<rparr>"
  have c: "cascade first_get_attribute_href accept_link referrer_node link_selectors (Some []) =
     Inr (Some ''https://example.com/out?ref=google.com'')"
    by code_simp
  have p: "''google.com'' \<in> set excluded_patterns" by (simp add: excluded_patterns_def)
  have s: "sublist ''google.com'' ''https://example.com/out?ref=google.com''" by code_simp
  have n: "urlparse_netloc no_ip_address ''https://example.com/out?ref=google.com'' = Inr ''example.com''"
    by code_simp
  have run: "search_google no_ip_address
      (Inr (search_page [referrer_node, result_node ''Beta'' ''http://beta.example/''])) ''q'' 10 =
     Inr [?r]"
    by code_simp
  have mem: "?r \<in> set [?r]" by simp
  note t = excluded_url_is_omitted [of referrer_node "''https://example.com/out?ref=google.com''"
      "''google.com''" no_ip_address "''q''" "[]"
      "Inr (search_page [referrer_node, result_node ''Beta'' ''http://beta.example/''])" 10 "[?r]" ?r]
  from t c p s have 1: "process_result no_ip_address ''q'' [] referrer_node = []" by blast
  from t run mem p have 2: "\<not> sublist ''google.com'' (url ?r)" by blast
  from 1 2 c p s n run show ?thesis by simp
qed

subsection \<open>Titles\<close>

text \<open>
  C7 at a node whose only title element holds two blanks. The cascade leaves the two
  blanks in \<^verbatim>\<open>title\<close>; the validation \<^verbatim>\<open>if not title\<close> reads the untrimmed string, which is
  not empty; the record is appended with the trimmed title, the empty string.
\<close>

theorem blank_title_is_appended:
  "cascade first_text_content accept_text blank_title_node title_selectors (Some []) =
     Inr (Some ''  '') \<and>
   search_google no_ip_address (Inr (search_page [blank_title_node])) ''q'' 10 =
     Inr [\<lparr>position = 1, title = [], url = ''http://example.com/'',
            snippet = ''No description available'', domain = ''example.com'',
            search_query = ''q''\<rparr>]"
  by code_simp

subsection \<open>How many records\<close>








section \<open>Properties of the selector cascade\<close>

lemma passed_over_cases:
  assumes "passed_over fetch accept result s"
  shows "(count (result s) = Inr 0 \<and> fetched fetch result s = None) \<or>
         (\<exists>n v. count (result s) = Inr n \<and> 0 < n \<and> fetch (result s) = Inr v \<and> \<not> accept v \<and>
                fetched fetch result s = Some v)"
  using assms unfolding passed_over_def fetched_def
  by (cases "count (result s)"; cases "fetch (result s)"; simp split: if_splits)

text \<open>
  Candidates that are passed over only change the variable: it ends as the value of the
  last of them that has a match.
\<close>

lemma cascade_passed_over_prefix:
  assumes "list_all (passed_over fetch accept result) pre"
  shows "cascade fetch accept result (pre @ sels) v0 =
         cascade fetch accept result sels (last (v0 # List.map_filter (fetched fetch result) pre))"
  using assms
proof (induction pre arbitrary: v0)
  case Nil
  then show ?case by (simp add: List.map_filter_simps)
next
  case (Cons s pre)
  from Cons.prems have s: "passed_over fetch accept result s"
    and pre: "list_all (passed_over fetch accept result) pre" by simp_all
  from passed_over_cases [OF s] show ?case
  proof (elim disjE exE conjE)
    assume "count (result s) = Inr 0" and "fetched fetch result s = None"
    then show ?thesis using Cons.IH [OF pre, of v0] by (simp add: List.map_filter_simps)
  next
    fix n v
    assume "count (result s) = Inr n" and "0 < n" and "fetch (result s) = Inr v"
      and "\<not> accept v" and "fetched fetch result s = Some v"
    then show ?thesis using Cons.IH [OF pre, of v] by (simp add: List.map_filter_simps)
  qed
qed

lemma cascade_accepted_head:
  assumes "fetched fetch result sel = Some v" and "accept v"
  shows "cascade fetch accept result (sel # post) v0 = Inr v"
  using assms unfolding fetched_def
  by (cases "count (result sel)"; cases "fetch (result sel)"; simp split: if_splits)

text \<open>
  C6, as the code has it, for every fetch, acceptance test, node and starting value. Of
  a candidate only the first match is read. When the candidates before \<open>sel\<close> are all
  passed over and the first match of \<open>sel\<close> has a value \<open>v\<close> that the test accepts, the
  cascade returns \<open>v\<close>, whatever candidates follow \<open>sel\<close> and in whatever order. When no
  candidate has a match, the cascade returns the starting value.
\<close>

theorem cascade_first_accepted:
  "(list_all (passed_over fetch accept result) pre \<and>
    fetched fetch result sel = Some v \<and> accept v
      \<longrightarrow> cascade fetch accept result (pre @ sel # post) v0 = Inr v \<and>
          cascade fetch accept result (pre @ sel # post') v0 = Inr v) \<and>
   (list_all (\<lambda>s. count (result s) = Inr 0) sels
      \<longrightarrow> cascade fetch accept result sels v0 = Inr v0)"
proof (intro conjI impI)
  assume a: "list_all (passed_over fetch accept result) pre \<and>
    fetched fetch result sel = Some v \<and> accept v"
  then have 1: "cascade fetch accept result (pre @ sel # rest) v0 = Inr v" for rest
    using cascade_passed_over_prefix [of fetch accept result pre "sel # rest" v0]
      cascade_accepted_head [of fetch result sel v accept rest]
    by simp
  show "cascade fetch accept result (pre @ sel # post) v0 = Inr v" by (rule 1)
  show "cascade fetch accept result (pre @ sel # post') v0 = Inr v" by (rule 1)
next
  assume "list_all (\<lambda>s. count (result s) = Inr 0) sels"
  then show "cascade fetch accept result sels v0 = Inr v0"
    by (induction sels) simp_all
qed

theorem cascade_first_accepted_witness:
  "list_all (passed_over first_text_content accept_text fallback_node) [''h3''] \<and>
   fetched first_text_content fallback_node ''h2'' = Some (Some ''Second'') \<and>
   accept_text (Some ''Second'') \<and>
   cascade first_text_content accept_text fallback_node
     ([''h3''] @ ''h2'' # [''.LC20lb'', ''.DKV0Md'']) (Some []) = Inr (Some ''Second'') \<and>
   cascade first_text_content accept_text fallback_node
     ([''h3''] @ ''h2'' # [''.DKV0Md'', ''.LC20lb'']) (Some []) = Inr (Some ''Second'') \<and>
   list_all (\<lambda>s. count (result_node ''Alpha'' ''https://alpha.example/a'' s) = Inr 0)
     snippet_selectors \<and>
   cascade first_text_content accept_text (result_node ''Alpha'' ''https://alpha.example/a'')
     snippet_selectors (Some []) = Inr (Some [])"
proof -
  have p1: "list_all (passed_over first_text_content accept_text fallback_node) [''h3'']"
    by code_simp
  have f: "fetched first_text_content fallback_node ''h2'' = Some (Some ''Second'')"
    by code_simp
  have a: "accept_text (Some ''Second'')" by code_simp
  have z: "list_all (\<lambda>s. count (result_node ''Alpha'' ''https://alpha.example/a'' s) = Inr 0)
     snippet_selectors"
    by code_simp
  note t1 = cascade_first_accepted [of first_text_content accept_text fallback_node "[''h3'']"
      "''h2''" "Some ''Second''" "[''.LC20lb'', ''.DKV0Md'']" "Some []" "[''.DKV0Md'', ''.LC20lb'']"]
  note t2 = cascade_first_accepted [of first_text_content accept_text
      "result_node ''Alpha'' ''https://alpha.example/a''" _ _ _ _ "Some []" _ snippet_selectors]
  from t1 p1 f a have 1: "cascade first_text_content accept_text fallback_node
     ([''h3''] @ ''h2'' # [''.LC20lb'', ''.DKV0Md'']) (Some []) = Inr (Some ''Second'') \<and>
   cascade first_text_content accept_text fallback_node
     ([''h3''] @ ''h2'' # [''.DKV0Md'', ''.LC20lb'']) (Some []) = Inr (Some ''Second'')"
    by blast
  from t2 z have 2: "cascade first_text_content accept_text
      (result_node ''Alpha'' ''https://alpha.example/a'') snippet_selectors (Some []) = Inr (Some [])"
    by blast
  from 1 2 p1 f a z show ?thesis by blast
qed

text \<open>
  The \<^verbatim>\<open>h3\<close> of this node, the first title candidate, has a match whose text the test
  accepts, but it is its second match; the first is blank. The cascade reads the first
  match only, moves on, and returns the text of the \<^verbatim>\<open>h2\<close>.
\<close>

theorem cascade_reads_first_match_only:
  "title_selectors = [''h3'', ''h2'', ''.LC20lb'', ''.DKV0Md''] \<and>
   two_titles_node ''h3'' = locator_of [heading_element ''  '', heading_element ''Real title''] \<and>
   text_content_e (heading_element ''Real title'') = Inr (Some ''Real title'') \<and>
   accept_text (Some ''Real title'') \<and>
   cascade first_text_content accept_text two_titles_node title_selectors (Some []) =
     Inr (Some ''Other'') \<and>
   Some ''Other'' \<noteq> Some ''Real title''"
  by code_simp

section \<open>Properties of the content extractor\<close>

subsection \<open>The decimal rendering of the status\<close>

lemma decimal_value_snoc: "decimal_value (s @ [c]) = 10 * decimal_value s + (of_char c - 48)"
  by (simp add: decimal_value_def)

lemma digit_char: "d < 10 \<Longrightarrow> is_digit (char_of (48 + d)) \<and> (of_char (char_of (48 + d)) :: nat) = 48 + d"
  by (simp add: is_digit_def Let_def)

lemma str_nat_not_Nil: "str_nat n \<noteq> []"
  by (subst str_nat.simps) simp

lemma str_nat_digits: "list_all is_digit (str_nat n)"
proof (induction n rule: str_nat.induct)
  case (1 n)
  show ?case
  proof (cases "n < 10")
    case True
    then show ?thesis using digit_char [of n] by (subst str_nat.simps) simp
  next
    case False
    have "n mod 10 < 10" by simp
    then have "is_digit (char_of (48 + n mod 10))" using digit_char by blast
    then show ?thesis using False 1 by (subst str_nat.simps) simp
  qed
qed

lemma decimal_value_str_nat: "decimal_value (str_nat n) = n"
proof (induction n rule: str_nat.induct)
  case (1 n)
  show ?case
  proof (cases "n < 10")
    case True
    then show ?thesis using digit_char [of n]
      by (subst str_nat.simps) (simp add: decimal_value_def)
  next
    case False
    have "n mod 10 < 10" by simp
    then have "(of_char (char_of (48 + n mod 10)) :: nat) = 48 + n mod 10"
      using digit_char by blast
    then show ?thesis using False 1
      by (subst str_nat.simps) (simp add: decimal_value_snoc)
  qed
qed

lemma hd_str_nat: "0 < n \<Longrightarrow> hd (str_nat n) \<noteq> CHR ''0''"
proof (induction n rule: str_nat.induct)
  case (1 n)
  show ?case
  proof (cases "n < 10")
    case True
    have "(of_char (char_of (48 + n)) :: nat) = 48 + n" using True digit_char by blast
    moreover have "(of_char CHR ''0'' :: nat) = 48" by simp
    ultimately have "char_of (48 + n) \<noteq> CHR ''0''" using "1.prems" by (metis add_cancel_right_right less_numeral_extra(3))
    then show ?thesis using True by (subst str_nat.simps) simp
  next
    case False
    then have "0 < n div 10" by simp
    then have "hd (str_nat (n div 10)) \<noteq> CHR ''0''" using 1 False by simp
    then show ?thesis using False str_nat_not_Nil [of "n div 10"]
      by (subst str_nat.simps) simp
  qed
qed

lemma str_int_decimal:
  assumes "0 < st"
  shows "list_all is_digit (str_int st) \<and> hd (str_int st) \<noteq> CHR ''0'' \<and>
         int (decimal_value (str_int st)) = st"
  using assms str_nat_digits [of "nat st"] hd_str_nat [of "nat st"] decimal_value_str_nat [of "nat st"]
  by (simp add: str_int_def)

lemma str_int_404: "str_int 404 = ''404''"
  by code_simp

subsection \<open>Error statuses\<close>

text \<open>
  C8, as the code has it. When the navigation returns a response of status 400 or more,
  \<open>extract_page_content\<close> closes the tab and, unless closing raises, returns the record of
  lines 298-312 with only two fields changed: \<open>status_code\<close> is the status and \<open>error\<close> is
  \<^verbatim>\<open>HTTP\<close>, a blank and the status in decimal (digits only, no leading zero, of the
  status's value; \<^verbatim>\<open>HTTP 404\<close> for 404). The text, the meta description and the headings
  are empty, the word count and the reading time are 0. When closing the tab raises,
  that exception leaves the function and no record is returned.
\<close>

theorem extract_page_content_http_error:
  assumes "goto_c pg = Inr (Some st)" and "400 \<le> st"
  shows "extract_page_content (Inr pg) now url_a title_a =
     (case close_c pg of
        Some e \<Rightarrow> Inl e
      | None \<Rightarrow>
          Inr \<lparr>url_c = url_a, title_c = title_a, content = [], text_content = [],
               meta_description = [], headings = [], links = [], images = [],
               status_code = Some st, error = Some (''HTTP '' @ str_int st),
               scraped_at = now, word_count = 0, reading_time = 0\<rparr>) \<and>
     list_all is_digit (str_int st) \<and> hd (str_int st) \<noteq> CHR ''0'' \<and>
     int (decimal_value (str_int st)) = st \<and>
     (st = 404 \<longrightarrow> str_int st = ''404'')"
proof -
  have "0 < st" using assms(2) by simp
  then have d: "list_all is_digit (str_int st) \<and> hd (str_int st) \<noteq> CHR ''0'' \<and>
         int (decimal_value (str_int st)) = st"
    by (rule str_int_decimal)
  have r: "extract_page_content (Inr pg) now url_a title_a =
     (case close_c pg of
        Some e \<Rightarrow> Inl e
      | None \<Rightarrow>
          Inr \<lparr>url_c = url_a, title_c = title_a, content = [], text_content = [],
               meta_description = [], headings = [], links = [], images = [],
               status_code = Some st, error = Some (''HTTP '' @ str_int st),
               scraped_at = now, word_count = 0, reading_time = 0\<rparr>)"
    using assms by (simp add: extract_page_content_def initial_content_data_def split: option.splits)
  show ?thesis using d r str_int_404 by simp
qed

theorem extract_page_content_http_error_witness:
  "goto_c not_found_page = Inr (Some 404) \<and> (400::int) \<le> 404 \<and> close_c not_found_page = None \<and>
   extract_page_content (Inr not_found_page) ''2024-05-01T12:00:00'' ''http://x.example/gone'' ''Gone'' =
     Inr \<lparr>url_c = ''http://x.example/gone'', title_c = ''Gone'', content = [], text_content = [],
          meta_description = [], headings = [], links = [], images = [],
          status_code = Some 404, error = Some ''HTTP 404'',
          scraped_at = ''2024-05-01T12:00:00'', word_count = 0, reading_time = 0\<rparr> \<and>
   goto_c unavailable_page = Inr (Some 503) \<and> (400::int) \<le> 503 \<and> close_c unavailable_page = None \<and>
   str_int 503 = ''503'' \<and>
   extract_page_content (Inr unavailable_page) ''2024-05-01T12:00:00'' ''http://x.example/down'' ''Down'' =
     Inr \<lparr>url_c = ''http://x.example/down'', title_c = ''Down'', content = [], text_content = [],
          meta_description = [], headings = [], links = [], images = [],
          status_code = Some 503, error = Some ''HTTP 503'',
          scraped_at = ''2024-05-01T12:00:00'', word_count = 0, reading_time = 0\<rparr>"
proof -
  have g: "goto_c not_found_page = Inr (Some 404)" and c: "close_c not_found_page = None"
    by (simp_all add: not_found_page_def)
  have g': "goto_c unavailable_page = Inr (Some 503)" and c': "close_c unavailable_page = None"
    by (simp_all add: unavailable_page_def not_found_page_def)
  have s: "(400::int) \<le> 404" and s': "(400::int) \<le> 503" by simp_all
  have n: "str_int 503 = ''503''" by code_simp
  from extract_page_content_http_error [OF g s, of "''2024-05-01T12:00:00''" "''http://x.example/gone''" "''Gone''"]
    extract_page_content_http_error [OF g' s', of "''2024-05-01T12:00:00''" "''http://x.example/down''" "''Down''"]
    g c g' c' n
  show ?thesis by simp
qed

text \<open>
  The navigation is answered with status 404 and \<^verbatim>\<open>page.close()\<close> raises: the function
  raises, and returns no record.
\<close>

theorem extract_page_content_http_error_close_raises:
  "goto_c not_found_page_close_fails = Inr (Some 404) \<and>
   close_c not_found_page_close_fails = Some (Exception ''Target closed'') \<and>
   extract_page_content (Inr not_found_page_close_fails) ''2024-05-01T12:00:00''
     ''http://x.example/gone'' ''Gone'' = Inl (Exception ''Target closed'')"
  by code_simp

subsection \<open>Which errors are recorded\<close>

lemma extract_page_content_returns:
  assumes "close_c pg = None"
  shows "\<exists>r. extract_page_content (Inr pg) now url_a title_a = Inr r \<and>
             url_c r = url_a \<and> title_c r = title_a"
  using assms
  by (auto simp: extract_page_content_def initial_content_data_def Let_def extract_body_def
        extract_content_def set_headings_def set_meta_def set_text_def split: sum.splits option.splits)

lemma extract_page_content_body:
  assumes "close_c pg = None" and "goto_c pg = Inr response"
    and "\<forall>st. response = Some st \<longrightarrow> st < 400"
  shows "extract_page_content (Inr pg) now url_a title_a =
     Inr (extract_body pg url_a ((initial_content_data now url_a title_a)\<lparr>status_code := response\<rparr>))"
  using assms by (cases response) (simp_all add: extract_page_content_def Let_def)

lemma extract_body_script_ok:
  assumes "evaluate pg = Inr txt"
  shows "error (extract_body pg url_a cd) = error cd \<and>
         status_code (extract_body pg url_a cd) = status_code cd \<and>
         text_content (extract_body pg url_a cd) = strip txt"
  using assms
  by (auto simp: extract_body_def extract_content_def set_headings_def set_meta_def set_text_def
        Let_def strip_def split: sum.splits option.splits)

text \<open>
  C3, as the code has it. \<open>extract_page_content\<close> raises exactly when opening the tab
  raises or closing it raises; otherwise it returns a record that carries the url and
  the title it was given. After a navigation that did not end in an error status, an
  exception of the text-extraction script is recorded in \<open>error\<close> as
  \<^verbatim>\<open>Error extracting content from <url>: <message>\<close>, on the record populated so far; when
  the script returns, \<open>error\<close> stays \<^verbatim>\<open>None\<close> whatever the settle wait, the meta description
  and the headings do, since their exceptions are dropped.
\<close>

theorem extract_page_content_outcomes:
  "(extract_page_content new_page now url_a title_a = Inl e \<longleftrightarrow>
      new_page = Inl e \<or> (\<exists>pg'. new_page = Inr pg' \<and> close_c pg' = Some e)) \<and>
   (close_c pg = None \<longrightarrow>
      (\<exists>r. extract_page_content (Inr pg) now url_a title_a = Inr r \<and>
           url_c r = url_a \<and> title_c r = title_a)) \<and>
   (close_c pg = None \<and> goto_c pg = Inr response \<and> (\<forall>st. response = Some st \<longrightarrow> st < 400) \<and>
    evaluate pg = Inl failure \<longrightarrow>
      extract_page_content (Inr pg) now url_a title_a =
        Inr ((initial_content_data now url_a title_a)
               \<lparr>status_code := response,
                error := Some (''Error extracting content from '' @ url_a @ '': '' @
                               str_exn failure)\<rparr>)) \<and>
   (close_c pg = None \<and> goto_c pg = Inr response \<and> (\<forall>st. response = Some st \<longrightarrow> st < 400) \<and>
    evaluate pg = Inr txt \<longrightarrow>
      (\<exists>r. extract_page_content (Inr pg) now url_a title_a = Inr r \<and>
           error r = None \<and> status_code r = response \<and> text_content r = strip txt))"
proof (intro conjI impI)
  show "extract_page_content new_page now url_a title_a = Inl e \<longleftrightarrow>
      new_page = Inl e \<or> (\<exists>pg'. new_page = Inr pg' \<and> close_c pg' = Some e)"
    by (cases new_page) (auto simp: extract_page_content_def Let_def split: option.splits)
next
  assume "close_c pg = None"
  then show "\<exists>r. extract_page_content (Inr pg) now url_a title_a = Inr r \<and>
           url_c r = url_a \<and> title_c r = title_a"
    by (rule extract_page_content_returns)
next
  assume a: "close_c pg = None \<and> goto_c pg = Inr response \<and>
    (\<forall>st. response = Some st \<longrightarrow> st < 400) \<and> evaluate pg = Inl failure"
  then show "extract_page_content (Inr pg) now url_a title_a =
        Inr ((initial_content_data now url_a title_a)
               \<lparr>status_code := response,
                error := Some (''Error extracting content from '' @ url_a @ '': '' @
                               str_exn failure)\<rparr>)"
    using extract_page_content_body [of pg response now url_a title_a]
    by (simp add: extract_body_def extract_content_def split: option.splits)
next
  assume a: "close_c pg = None \<and> goto_c pg = Inr response \<and>
    (\<forall>st. response = Some st \<longrightarrow> st < 400) \<and> evaluate pg = Inr txt"
  then show "\<exists>r. extract_page_content (Inr pg) now url_a title_a = Inr r \<and>
           error r = None \<and> status_code r = response \<and> text_content r = strip txt"
    using extract_page_content_body [of pg response now url_a title_a]
      extract_body_script_ok [of pg "txt" url_a
        "(initial_content_data now url_a title_a)\<lparr>status_code := response\<rparr>"]
    by (simp add: initial_content_data_def)
qed

text \<open>
  A page whose script raises, and a page whose settle wait, meta description and
  headings raise while its script returns.
\<close>

theorem extract_page_content_outcomes_witness:
  "close_c broken_script_page = None \<and> goto_c broken_script_page = Inr (Some 200) \<and>
   (200::int) < 400 \<and>
   evaluate broken_script_page = Inl (Exception ''document.body is null'') \<and>
   extract_page_content (Inr broken_script_page) ''2024-05-01T12:00:00'' ''http://x.example/'' ''X'' =
     Inr \<lparr>url_c = ''http://x.example/'', title_c = ''X'', content = [], text_content = [],
          meta_description = [], headings = [], links = [], images = [],
          status_code = Some 200,
          error = Some ''Error extracting content from http://x.example/: document.body is null'',
          scraped_at = ''2024-05-01T12:00:00'', word_count = 0, reading_time = 0\<rparr> \<and>
   close_c flaky_page = None \<and> goto_c flaky_page = Inr (Some 200) \<and>
   evaluate flaky_page = Inr ''  Hello brave new world  '' \<and>
   map_sum id error
     (extract_page_content (Inr flaky_page) ''2024-05-01T12:00:00'' ''http://x.example/'' ''X'') =
     Inr None \<and>
   map_sum id text_content
     (extract_page_content (Inr flaky_page) ''2024-05-01T12:00:00'' ''http://x.example/'' ''X'') =
     Inr ''Hello brave new world''"
proof -
  have c: "close_c broken_script_page = None"
    and g: "goto_c broken_script_page = Inr (Some 200)"
    and ev: "evaluate broken_script_page = Inl (Exception ''document.body is null'')"
    by (simp_all add: broken_script_page_def)
  have c': "close_c flaky_page = None"
    and g': "goto_c flaky_page = Inr (Some 200)"
    and ev': "evaluate flaky_page = Inr ''  Hello brave new world  ''"
    by (simp_all add: flaky_page_def)
  have st: "\<forall>st. Some (200::int) = Some st \<longrightarrow> st < 400" by simp
  have sp: "strip ''  Hello brave new world  '' = ''Hello brave new world''" by code_simp
  note t = extract_page_content_outcomes [of "Inr broken_script_page" "''2024-05-01T12:00:00''"
      "''http://x.example/''" "''X''" "Exception ''x''" broken_script_page "Some 200"
      "Exception ''document.body is null''" "[]"]
  note t' = extract_page_content_outcomes [of "Inr flaky_page" "''2024-05-01T12:00:00''"
      "''http://x.example/''" "''X''" "Exception ''x''" flaky_page "Some 200"
      "Exception ''x''" "''  Hello brave new world  ''"]
  from t c g ev st have 1:
    "extract_page_content (Inr broken_script_page) ''2024-05-01T12:00:00'' ''http://x.example/'' ''X'' =
        Inr ((initial_content_data ''2024-05-01T12:00:00'' ''http://x.example/'' ''X'')
               \<lparr>status_code := Some 200,
                error := Some (''Error extracting content from '' @ ''http://x.example/'' @ '': '' @
                               str_exn (Exception ''document.body is null''))\<rparr>)"
    by blast
  from t' c' g' ev' st obtain r where 2:
    "extract_page_content (Inr flaky_page) ''2024-05-01T12:00:00'' ''http://x.example/'' ''X'' = Inr r"
    "error r = None" "text_content r = strip ''  Hello brave new world  ''"
    by blast
  from 1 2 sp show ?thesis using c g ev c' g' ev' by (simp add: initial_content_data_def)
qed

text \<open>
  When the tab cannot be opened, the exception leaves \<open>extract_page_content\<close>. On the page
  whose settle wait, meta description and headings raise, the record comes back with
  \<open>error\<close> at \<^verbatim>\<open>None\<close>: these three exceptions are recorded nowhere.
\<close>

theorem extract_page_content_raises_and_drops:
  "extract_page_content (Inl (Exception ''Target page, context or browser has been closed''))
     ''2024-05-01T12:00:00'' ''http://x.example/'' ''X'' =
     Inl (Exception ''Target page, context or browser has been closed'') \<and>
   wait_for_load_state flaky_page = Some (Exception ''Timeout 15000ms exceeded'') \<and>
   meta_get_attribute_content flaky_page = Inl (Exception ''Timeout 30000ms exceeded'') \<and>
   headings_all flaky_page = Inl (Exception ''Execution context was destroyed'') \<and>
   extract_page_content (Inr flaky_page) ''2024-05-01T12:00:00'' ''http://x.example/'' ''X'' =
     Inr \<lparr>url_c = ''http://x.example/'', title_c = ''X'', content = [],
          text_content = ''Hello brave new world'', meta_description = [], headings = [],
          links = [], images = [], status_code = Some 200, error = None,
          scraped_at = ''2024-05-01T12:00:00'', word_count = 4, reading_time = 1\<rparr>"
  by code_simp

section \<open>Properties of the fan-out and the merge\<close>






text \<open>The dicts that \<open>search_google\<close> builds have both keys.\<close>

lemma dict_of_search_result_keys:
  "dict_of_search_result r ''url'' \<noteq> None \<and> dict_of_search_result r ''title'' \<noteq> None"
  by (simp add: dict_of_search_result_def)




end
